theory Spec2Isabelle
  imports Main "HOL-Library.Word"
begin

section \<open>float64 values\<close>

text \<open>
  A Go \<^verbatim>\<open>float64\<close> is an IEEE-754 binary64 value, modelled by its 64 bits: bit 63 is
  the sign, bits 62..52 the exponent, bits 51..0 the fraction. A value is a NaN when its
  exponent is all ones and its fraction is not zero. The comparisons \<^verbatim>\<open>==\<close>, \<^verbatim>\<open>!=\<close>
  and \<^verbatim>\<open><\<close> are those of IEEE-754: every comparison with a NaN but \<^verbatim>\<open>!=\<close> is false,
  and the two zeros are equal.
\<close>

type_synonym float64 = "64 word"

definition isNaN :: "float64 \<Rightarrow> bool" where
  "isNaN x \<longleftrightarrow> 0x7FF0000000000000 < take_bit 63 x"

definition isZero :: "float64 \<Rightarrow> bool" where
  "isZero x \<longleftrightarrow> take_bit 63 x = 0"

text \<open>The position of a value that is not a NaN in the order of the extended reals.\<close>

definition rank :: "float64 \<Rightarrow> int" where
  "rank x = (if bit x 63 then - uint (take_bit 63 x) else uint (take_bit 63 x))"

definition feq :: "float64 \<Rightarrow> float64 \<Rightarrow> bool" where
  "feq x y \<longleftrightarrow> \<not> isNaN x \<and> \<not> isNaN y \<and> (x = y \<or> (isZero x \<and> isZero y))"

definition fne :: "float64 \<Rightarrow> float64 \<Rightarrow> bool" where
  "fne x y \<longleftrightarrow> \<not> feq x y"

definition flt :: "float64 \<Rightarrow> float64 \<Rightarrow> bool" where
  "flt x y \<longleftrightarrow> \<not> isNaN x \<and> \<not> isNaN y \<and> rank x < rank y"

text \<open>The NaN that operations of the model return (the bits of Go's \<^verbatim>\<open>math.NaN()\<close>).\<close>

definition NaN :: float64 where
  "NaN = 0x7FF8000000000001"

subsection \<open>The constants of the source\<close>

text \<open>
  Each float literal of the source, as the binary64 value nearest to it. \<^verbatim>\<open>f\<close> is the
  constant expression \<^verbatim>\<open>1.0 / 298.257223563\<close>, which Go evaluates exactly before it
  rounds.
\<close>

definition f64_0 :: float64 where "f64_0 = 0x0000000000000000"
definition f64_1 :: float64 where "f64_1 = 0x3FF0000000000000"
definition f64_2 :: float64 where "f64_2 = 0x4000000000000000"
definition f64_3 :: float64 where "f64_3 = 0x4008000000000000"
definition f64_4 :: float64 where "f64_4 = 0x4010000000000000"
definition f64_6 :: float64 where "f64_6 = 0x4018000000000000"
definition f64_16 :: float64 where "f64_16 = 0x4030000000000000"
definition f64_47 :: float64 where "f64_47 = 0x4047800000000000"
definition f64_74 :: float64 where "f64_74 = 0x4052800000000000"
definition f64_175 :: float64 where "f64_175 = 0x4065E00000000000"
definition f64_180 :: float64 where "f64_180 = 0x4066800000000000"
definition f64_256 :: float64 where "f64_256 = 0x4070000000000000"
definition f64_320 :: float64 where "f64_320 = 0x4074000000000000"
definition f64_1000 :: float64 where "f64_1000 = 0x408F400000000000"
definition f64_1024 :: float64 where "f64_1024 = 0x4090000000000000"
definition f64_1852 :: float64 where "f64_1852 = 0x409CF00000000000"
definition f64_4096 :: float64 where "f64_4096 = 0x40B0000000000000"
definition f64_16384 :: float64 where "f64_16384 = 0x40D0000000000000"
definition f64_m1 :: float64 where "f64_m1 = 0xBFF0000000000000"
definition f64_m3 :: float64 where "f64_m3 = 0xC008000000000000"
definition f64_m128 :: float64 where "f64_m128 = 0xC060000000000000"
definition f64_m768 :: float64 where "f64_m768 = 0xC088000000000000"

text \<open>1609.344, 0.3048, \<^verbatim>\<open>math.Pi\<close>, and the WGS 84 constants a, f and b.\<close>

definition f64_1609_344 :: float64 where "f64_1609_344 = 0x409925604189374C"
definition f64_0_3048 :: float64 where "f64_0_3048 = 0x3FD381D7DBF487FD"
definition Pi :: float64 where "Pi = 0x400921FB54442D18"
definition wgs84_a :: float64 where "wgs84_a = 0x415854A640000000"
definition wgs84_f :: float64 where "wgs84_f = 0x3F6B775A84F3E129"
definition wgs84_b :: float64 where "wgs84_b = 0x41583FC4141C970F"

definition MaxIterations :: nat where "MaxIterations = 200"

text \<open>1e-12\<close>

definition ConvergenceThreshold :: float64 where
  "ConvergenceThreshold = 0x3D719799812DEA11"

subsection \<open>Arithmetic and the math package\<close>

text \<open>
  What the operators \<^verbatim>\<open>+ - * /\<close> and the functions of Go's \<^verbatim>\<open>math\<close> package compute
  on operands that are not NaN (the rounding of the processor, the algorithms of the
  library) is not part of the repository: it is a parameter \<open>U\<close> of the model, and a
  theorem about \<open>U\<close> holds for every processor and every math library. Each operator
  of an expression is applied on its own, in Go's order of evaluation (\<^verbatim>\<open>*\<close> and
  \<^verbatim>\<open>/\<close> bind tighter than \<^verbatim>\<open>+\<close> and \<^verbatim>\<open>-\<close>, and all four associate to the left).
  A float division by zero does not panic in Go: it returns an infinity or a NaN.
\<close>

record fpu =
  fp_add :: "float64 \<Rightarrow> float64 \<Rightarrow> float64"
  fp_sub :: "float64 \<Rightarrow> float64 \<Rightarrow> float64"
  fp_mul :: "float64 \<Rightarrow> float64 \<Rightarrow> float64"
  fp_quo :: "float64 \<Rightarrow> float64 \<Rightarrow> float64"
  fp_Sqrt :: "float64 \<Rightarrow> float64"
  fp_Sin :: "float64 \<Rightarrow> float64"
  fp_Cos :: "float64 \<Rightarrow> float64"
  fp_Tan :: "float64 \<Rightarrow> float64"
  fp_Atan :: "float64 \<Rightarrow> float64"
  fp_Atan2 :: "float64 \<Rightarrow> float64 \<Rightarrow> float64"
  fp_Round :: "float64 \<Rightarrow> float64"

text \<open>
  An operation with a NaN operand returns a NaN: this is IEEE-754 for the operators and
  the square root, and the behaviour of \<^verbatim>\<open>math.Sin\<close>, \<^verbatim>\<open>math.Cos\<close>, \<^verbatim>\<open>math.Tan\<close>,
  \<^verbatim>\<open>math.Atan\<close>, \<^verbatim>\<open>math.Atan2\<close> and \<^verbatim>\<open>math.Round\<close>. The payload of a NaN is not
  tracked (every NaN result is the same NaN): the program never reads it.
\<close>

definition strict1 :: "(float64 \<Rightarrow> float64) \<Rightarrow> float64 \<Rightarrow> float64" where
  "strict1 op1 x = (if isNaN x then NaN else op1 x)"

definition strict2 ::
  "(float64 \<Rightarrow> float64 \<Rightarrow> float64) \<Rightarrow> float64 \<Rightarrow> float64 \<Rightarrow> float64" where
  "strict2 op2 x y = (if isNaN x \<or> isNaN y then NaN else op2 x y)"

definition fadd :: "fpu \<Rightarrow> float64 \<Rightarrow> float64 \<Rightarrow> float64" where
  "fadd U = strict2 (fp_add U)"

definition fsub :: "fpu \<Rightarrow> float64 \<Rightarrow> float64 \<Rightarrow> float64" where
  "fsub U = strict2 (fp_sub U)"

definition fmul :: "fpu \<Rightarrow> float64 \<Rightarrow> float64 \<Rightarrow> float64" where
  "fmul U = strict2 (fp_mul U)"

definition fquo :: "fpu \<Rightarrow> float64 \<Rightarrow> float64 \<Rightarrow> float64" where
  "fquo U = strict2 (fp_quo U)"

definition Sqrt :: "fpu \<Rightarrow> float64 \<Rightarrow> float64" where
  "Sqrt U = strict1 (fp_Sqrt U)"

definition Sin :: "fpu \<Rightarrow> float64 \<Rightarrow> float64" where
  "Sin U = strict1 (fp_Sin U)"

definition Cos :: "fpu \<Rightarrow> float64 \<Rightarrow> float64" where
  "Cos U = strict1 (fp_Cos U)"

definition Tan :: "fpu \<Rightarrow> float64 \<Rightarrow> float64" where
  "Tan U = strict1 (fp_Tan U)"

definition Atan :: "fpu \<Rightarrow> float64 \<Rightarrow> float64" where
  "Atan U = strict1 (fp_Atan U)"

definition Atan2 :: "fpu \<Rightarrow> float64 \<Rightarrow> float64 \<Rightarrow> float64" where
  "Atan2 U = strict2 (fp_Atan2 U)"

definition Round :: "fpu \<Rightarrow> float64 \<Rightarrow> float64" where
  "Round U = strict1 (fp_Round U)"

text \<open>\<^verbatim>\<open>math.Abs\<close> clears the sign bit.\<close>

definition Abs :: "float64 \<Rightarrow> float64" where
  "Abs x = take_bit 63 x"

section \<open>Distance and its units\<close>

text \<open>\<^verbatim>\<open>type Distance float64\<close>; the conversion \<^verbatim>\<open>float64(d)\<close> is \<open>float64_of\<close>.\<close>

datatype Distance = Distance float64

fun float64_of :: "Distance \<Rightarrow> float64" where
  "float64_of (Distance x) = x"

definition Metres :: "Distance \<Rightarrow> float64" where
  "Metres d = float64_of d"

definition Meters :: "Distance \<Rightarrow> float64" where
  "Meters d = float64_of d"

definition Kilometres :: "fpu \<Rightarrow> Distance \<Rightarrow> float64" where
  "Kilometres U d = fquo U (float64_of d) f64_1000"

definition Kilometers :: "fpu \<Rightarrow> Distance \<Rightarrow> float64" where
  "Kilometers U d = fquo U (float64_of d) f64_1000"

definition NauticalMiles :: "fpu \<Rightarrow> Distance \<Rightarrow> float64" where
  "NauticalMiles U d = fquo U (float64_of d) f64_1852"

definition Miles :: "fpu \<Rightarrow> Distance \<Rightarrow> float64" where
  "Miles U d = fquo U (float64_of d) f64_1609_344"

definition Feet :: "fpu \<Rightarrow> Distance \<Rightarrow> float64" where
  "Feet U d = fquo U (float64_of d) f64_0_3048"

section \<open>Inverse\<close>

record LatLng =
  Latitude :: float64
  Longitude :: float64

definition radians :: "fpu \<Rightarrow> float64 \<Rightarrow> float64" where
  "radians U degrees = fquo U (fmul U degrees Pi) f64_180"

definition square :: "fpu \<Rightarrow> float64 \<Rightarrow> float64" where
  "square U f = fmul U f f"

text \<open>
  The locals of \<^verbatim>\<open>Inverse\<close> that the loop reads and never writes: the sines and cosines
  of the reduced latitudes, and the difference of the longitudes.
\<close>

record aux =
  sinU1 :: float64
  cosU1 :: float64
  sinU2 :: float64
  cosU2 :: float64
  L :: float64

text \<open>
  The four return statements of \<^verbatim>\<open>Inverse\<close>, in the order of the source: the
  short-circuit of coincident points, the return of the loop where sinSigma is zero,
  the return on convergence, and the return after the loop.
\<close>

datatype exit_path = ShortCircuit | ZeroSinSigma | Convergence | IterationCap

text \<open>What one run of the loop body does: it returns, or it goes on with a new Lambda.\<close>

datatype step = Return exit_path Distance | Continue float64

text \<open>The block under \<^verbatim>\<open>// successful convergence\<close>.\<close>

definition converged :: "fpu \<Rightarrow> float64 \<Rightarrow> float64 \<Rightarrow> float64 \<Rightarrow> float64 \<Rightarrow> float64 \<Rightarrow> Distance" where
  "converged U cosSqAlpha sinSigma cos2SigmaM cosSigma sigma =
    (let a = wgs84_a; b = wgs84_b;
         uSq = fquo U (fmul U cosSqAlpha (fsub U (square U a) (square U b))) (square U b);
         A = fadd U f64_1
               (fmul U (fquo U uSq f64_16384)
                  (fadd U f64_4096
                     (fmul U uSq (fadd U f64_m768
                        (fmul U uSq (fsub U f64_320 (fmul U f64_175 uSq)))))));
         B = fmul U (fquo U uSq f64_1024)
               (fadd U f64_256
                  (fmul U uSq (fadd U f64_m128
                     (fmul U uSq (fsub U f64_74 (fmul U f64_47 uSq))))));
         deltaSigma =
           fmul U (fmul U B sinSigma)
             (fadd U cos2SigmaM
                (fmul U (fquo U B f64_4)
                   (fsub U
                      (fmul U cosSigma (fadd U f64_m1 (fmul U f64_2 (square U cos2SigmaM))))
                      (fmul U
                         (fmul U (fmul U (fquo U B f64_6) cos2SigmaM)
                            (fadd U f64_m3 (fmul U f64_4 (square U sinSigma))))
                         (fadd U f64_m3 (fmul U f64_4 (square U cos2SigmaM)))))));
         s = fmul U (fmul U b A) (fsub U sigma deltaSigma);
         s = fquo U (Round U (fmul U s f64_1000)) f64_1000
     in Distance s)"

text \<open>The body of the \<^verbatim>\<open>for\<close> loop, from the Lambda of the iteration.\<close>

definition iteration :: "fpu \<Rightarrow> aux \<Rightarrow> float64 \<Rightarrow> step" where
  "iteration U g Lambda =
    (let f = wgs84_f;
         sinLambda = Sin U Lambda;
         cosLambda = Cos U Lambda;
         sinSigma = Sqrt U (fadd U
           (square U (fmul U (cosU2 g) sinLambda))
           (square U (fsub U (fmul U (cosU1 g) (sinU2 g))
                             (fmul U (fmul U (sinU1 g) (cosU2 g)) cosLambda))))
     in if feq sinSigma f64_0 then Return ZeroSinSigma (Distance f64_0)
        else
          let cosSigma = fadd U (fmul U (sinU1 g) (sinU2 g))
                                (fmul U (fmul U (cosU1 g) (cosU2 g)) cosLambda);
              sigma = Atan2 U sinSigma cosSigma;
              sinAlpha = fquo U (fmul U (fmul U (cosU1 g) (cosU2 g)) sinLambda) sinSigma;
              cosSqAlpha = fsub U f64_1 (square U sinAlpha);
              cos2SigmaM =
                (if fne cosSqAlpha f64_0
                 then fsub U cosSigma
                        (fquo U (fmul U (fmul U f64_2 (sinU1 g)) (sinU2 g)) cosSqAlpha)
                 else f64_0);
              C = fmul U (fmul U (fquo U f f64_16) cosSqAlpha)
                    (fadd U f64_4 (fmul U f (fsub U f64_4 (fmul U f64_3 cosSqAlpha))));
              LambdaPrev = Lambda;
              Lambda = fadd U (L g)
                (fmul U (fmul U (fmul U (fsub U f64_1 C) f) sinAlpha)
                   (fadd U sigma
                      (fmul U (fmul U C sinSigma)
                         (fadd U cos2SigmaM
                            (fmul U (fmul U C cosSigma)
                               (fadd U f64_m1 (fmul U f64_2 (square U cos2SigmaM))))))))
          in if flt (Abs (fsub U Lambda LambdaPrev)) ConvergenceThreshold
             then Return Convergence (converged U cosSqAlpha sinSigma cos2SigmaM cosSigma sigma)
             else Continue Lambda)"

text \<open>
  A run of \<^verbatim>\<open>Inverse\<close>: the Distance it returns, the return statement that returned
  it, and the number of loop bodies that were entered.
\<close>

record run =
  result :: Distance
  exit_at :: exit_path
  iterations :: nat

text \<open>\<^verbatim>\<open>for i := 0; i < MaxIterations; i++\<close>, from the counter i and the current Lambda.\<close>

function loop :: "fpu \<Rightarrow> aux \<Rightarrow> nat \<Rightarrow> float64 \<Rightarrow> run" where
  "loop U g i Lambda =
    (if i < MaxIterations then
       (case iteration U g Lambda of
          Return e d \<Rightarrow> \<lparr>result = d, exit_at = e, iterations = i + 1\<rparr>
        | Continue Lambda' \<Rightarrow> loop U g (i + 1) Lambda')
     else \<lparr>result = Distance f64_m1, exit_at = IterationCap, iterations = i\<rparr>)"
  by pat_completeness auto
termination
  by (relation "measure (\<lambda>(U, g, i, Lambda). MaxIterations - i)") auto

text \<open>The statements between the short-circuit and the loop.\<close>

definition prepare :: "fpu \<Rightarrow> LatLng \<Rightarrow> LatLng \<Rightarrow> aux" where
  "prepare U point1 point2 =
    (let f = wgs84_f;
         U1 = Atan U (fmul U (fsub U f64_1 f) (Tan U (radians U (Latitude point1))));
         U2 = Atan U (fmul U (fsub U f64_1 f) (Tan U (radians U (Latitude point2))))
     in \<lparr>sinU1 = Sin U U1, cosU1 = Cos U U1, sinU2 = Sin U U2, cosU2 = Cos U U2,
         L = radians U (fsub U (Longitude point2) (Longitude point1))\<rparr>)"

definition coincident :: "LatLng \<Rightarrow> LatLng \<Rightarrow> bool" where
  "coincident point1 point2 \<longleftrightarrow>
     feq (Latitude point1) (Latitude point2) \<and> feq (Longitude point1) (Longitude point2)"

definition Inverse_run :: "fpu \<Rightarrow> LatLng \<Rightarrow> LatLng \<Rightarrow> run" where
  "Inverse_run U point1 point2 =
    (if coincident point1 point2
     then \<lparr>result = Distance f64_0, exit_at = ShortCircuit, iterations = 0\<rparr>
     else let g = prepare U point1 point2; Lambda = L g in loop U g 0 Lambda)"

definition Inverse :: "fpu \<Rightarrow> LatLng \<Rightarrow> LatLng \<Rightarrow> Distance" where
  "Inverse U point1 point2 = result (Inverse_run U point1 point2)"

subsection \<open>The iterates of the loop\<close>

text \<open>
  Whether the body, run from a Lambda, reaches the end of the body (neither
  \<^verbatim>\<open>return\<close> is taken), and the Lambda it then leaves for the next iteration.
\<close>

definition continues :: "fpu \<Rightarrow> aux \<Rightarrow> float64 \<Rightarrow> bool" where
  "continues U g Lambda =
     (case iteration U g Lambda of Return e d \<Rightarrow> False | Continue Lambda' \<Rightarrow> True)"

definition next_Lambda :: "fpu \<Rightarrow> aux \<Rightarrow> float64 \<Rightarrow> float64" where
  "next_Lambda U g Lambda =
     (case iteration U g Lambda of Return e d \<Rightarrow> Lambda | Continue Lambda' \<Rightarrow> Lambda')"

text \<open>The Lambda at the start of iteration k (counted from 0), from the first Lambda.\<close>

fun Lambda_at :: "fpu \<Rightarrow> aux \<Rightarrow> float64 \<Rightarrow> nat \<Rightarrow> float64" where
  "Lambda_at U g Lambda 0 = Lambda"
| "Lambda_at U g Lambda (Suc k) = Lambda_at U g (next_Lambda U g Lambda) k"

subsection \<open>The loop body with checked divisions\<close>

text \<open>
  A division that fails (\<open>None\<close>) where the divisor compares equal to zero, and the loop
  body with the divisions by sinSigma and by cosSqAlpha replaced by it. Everything
  else is the text of \<open>iteration\<close>.
\<close>

definition checked_quo :: "fpu \<Rightarrow> float64 \<Rightarrow> float64 \<Rightarrow> float64 option" where
  "checked_quo U x y = (if feq y f64_0 then None else Some (fquo U x y))"

definition iteration_checked :: "fpu \<Rightarrow> aux \<Rightarrow> float64 \<Rightarrow> step option" where
  "iteration_checked U g Lambda =
    (let f = wgs84_f;
         sinLambda = Sin U Lambda;
         cosLambda = Cos U Lambda;
         sinSigma = Sqrt U (fadd U
           (square U (fmul U (cosU2 g) sinLambda))
           (square U (fsub U (fmul U (cosU1 g) (sinU2 g))
                             (fmul U (fmul U (sinU1 g) (cosU2 g)) cosLambda))))
     in if feq sinSigma f64_0 then Some (Return ZeroSinSigma (Distance f64_0))
        else
          let cosSigma = fadd U (fmul U (sinU1 g) (sinU2 g))
                                (fmul U (fmul U (cosU1 g) (cosU2 g)) cosLambda);
              sigma = Atan2 U sinSigma cosSigma
          in case checked_quo U (fmul U (fmul U (cosU1 g) (cosU2 g)) sinLambda) sinSigma of
               None \<Rightarrow> None
             | Some sinAlpha \<Rightarrow>
                (let cosSqAlpha = fsub U f64_1 (square U sinAlpha)
                 in case (if fne cosSqAlpha f64_0
                          then map_option (fsub U cosSigma)
                                 (checked_quo U (fmul U (fmul U f64_2 (sinU1 g)) (sinU2 g)) cosSqAlpha)
                          else Some f64_0) of
                      None \<Rightarrow> None
                    | Some cos2SigmaM \<Rightarrow>
                        let C = fmul U (fmul U (fquo U f f64_16) cosSqAlpha)
                                  (fadd U f64_4 (fmul U f (fsub U f64_4 (fmul U f64_3 cosSqAlpha))));
                            LambdaPrev = Lambda;
                            Lambda = fadd U (L g)
                              (fmul U (fmul U (fmul U (fsub U f64_1 C) f) sinAlpha)
                                 (fadd U sigma
                                    (fmul U (fmul U C sinSigma)
                                       (fadd U cos2SigmaM
                                          (fmul U (fmul U C cosSigma)
                                             (fadd U f64_m1 (fmul U f64_2 (square U cos2SigmaM))))))))
                        in Some (if flt (Abs (fsub U Lambda LambdaPrev)) ConvergenceThreshold
                                 then Return Convergence
                                        (converged U cosSqAlpha sinSigma cos2SigmaM cosSigma sigma)
                                 else Continue Lambda)))"

text \<open>
  The loop of \<^verbatim>\<open>Inverse\<close> is reached and each of its MaxIterations iterations runs to
  the end of the body: no iteration returns, so the convergence check never succeeds.
\<close>

definition completes_all_iterations :: "fpu \<Rightarrow> LatLng \<Rightarrow> LatLng \<Rightarrow> bool" where
  "completes_all_iterations U point1 point2 \<longleftrightarrow>
     \<not> coincident point1 point2 \<and>
     (\<forall>k<MaxIterations.
        continues U (prepare U point1 point2)
          (Lambda_at U (prepare U point1 point2) (L (prepare U point1 point2)) k))"

subsection \<open>Points of the tests, and a point with a NaN latitude\<close>

text \<open>(0, 0) and Boston (42.3541165, -71.0693514) are points of the repository's tests.\<close>

definition origin :: LatLng where
  "origin = \<lparr>Latitude = f64_0, Longitude = f64_0\<rparr>"

definition Boston :: LatLng where
  "Boston = \<lparr>Latitude = 0x40452D53B0813CAC, Longitude = 0xC051C47040DABBA3\<rparr>"

definition NaN_point :: LatLng where
  "NaN_point = \<lparr>Latitude = NaN, Longitude = f64_0\<rparr>"

section \<open>The unit accessors\<close>

text \<open>
  C6. For every Distance d (the sentinel -1.0 is one of them): Metres returns the
  underlying value unchanged; Kilometres, NauticalMiles, Miles and Feet are Metres
  divided by 1000, 1852, 1609.344 and 0.3048; Meters and Kilometers return the values
  of Metres and Kilometres.
\<close>

theorem units_are_quotients_of_Metres:
  "Metres d = float64_of d \<and>
   Kilometres U d = fquo U (Metres d) f64_1000 \<and>
   NauticalMiles U d = fquo U (Metres d) f64_1852 \<and>
   Miles U d = fquo U (Metres d) f64_1609_344 \<and>
   Feet U d = fquo U (Metres d) f64_0_3048 \<and>
   Meters d = Metres d \<and>
   Kilometers U d = Kilometres U d"
  by (simp add: Metres_def Meters_def Kilometres_def Kilometers_def NauticalMiles_def
      Miles_def Feet_def)

section \<open>NaN operands\<close>


lemma isNaN_NaN: "isNaN NaN" by (simp add: isNaN_def NaN_def)

lemma isNaN_strict1: "isNaN x \<Longrightarrow> isNaN (strict1 op1 x)"
  by (simp add: strict1_def isNaN_NaN)

lemma isNaN_strict2: "isNaN x \<or> isNaN y \<Longrightarrow> isNaN (strict2 op2 x y)"
  by (auto simp add: strict2_def isNaN_NaN)

lemma isNaN_fadd: "isNaN x \<or> isNaN y \<Longrightarrow> isNaN (fadd U x y)"
  by (simp add: fadd_def isNaN_strict2)
lemma isNaN_fsub: "isNaN x \<or> isNaN y \<Longrightarrow> isNaN (fsub U x y)"
  by (simp add: fsub_def isNaN_strict2)
lemma isNaN_fmul: "isNaN x \<or> isNaN y \<Longrightarrow> isNaN (fmul U x y)"
  by (simp add: fmul_def isNaN_strict2)
lemma isNaN_fquo: "isNaN x \<or> isNaN y \<Longrightarrow> isNaN (fquo U x y)"
  by (simp add: fquo_def isNaN_strict2)
lemma isNaN_Atan2: "isNaN x \<or> isNaN y \<Longrightarrow> isNaN (Atan2 U x y)"
  by (simp add: Atan2_def isNaN_strict2)
lemma isNaN_Sqrt: "isNaN x \<Longrightarrow> isNaN (Sqrt U x)"
  by (simp add: Sqrt_def isNaN_strict1)
lemma isNaN_Sin: "isNaN x \<Longrightarrow> isNaN (Sin U x)"
  by (simp add: Sin_def isNaN_strict1)
lemma isNaN_Cos: "isNaN x \<Longrightarrow> isNaN (Cos U x)"
  by (simp add: Cos_def isNaN_strict1)
lemma isNaN_Tan: "isNaN x \<Longrightarrow> isNaN (Tan U x)"
  by (simp add: Tan_def isNaN_strict1)
lemma isNaN_Atan: "isNaN x \<Longrightarrow> isNaN (Atan U x)"
  by (simp add: Atan_def isNaN_strict1)
lemma isNaN_square: "isNaN x \<Longrightarrow> isNaN (square U x)"
  by (simp add: square_def isNaN_fmul)
lemma isNaN_radians: "isNaN x \<Longrightarrow> isNaN (radians U x)"
  by (simp add: radians_def isNaN_fmul isNaN_fquo)
lemma isNaN_Abs: "isNaN (Abs x) = isNaN x"
  by (simp add: isNaN_def Abs_def)
lemma feq_NaN: "isNaN x \<or> isNaN y \<Longrightarrow> \<not> feq x y"
  by (auto simp add: feq_def)
lemma flt_NaN: "isNaN x \<or> isNaN y \<Longrightarrow> \<not> flt x y"
  by (auto simp add: flt_def)
lemma feq_refl: "\<not> isNaN x \<Longrightarrow> feq x x"
  by (simp add: feq_def)

lemma iteration_NaN:
  assumes "isNaN (cosU1 g) \<or> isNaN (cosU2 g) \<or> isNaN Lambda"
  shows "\<exists>Lambda'. iteration U g Lambda = Continue Lambda' \<and> isNaN Lambda'"
proof -
  define sinLambda where "sinLambda = Sin U Lambda"
  define cosLambda where "cosLambda = Cos U Lambda"
  define sinSigma where "sinSigma = Sqrt U (fadd U
           (square U (fmul U (cosU2 g) sinLambda))
           (square U (fsub U (fmul U (cosU1 g) (sinU2 g))
                             (fmul U (fmul U (sinU1 g) (cosU2 g)) cosLambda))))"
  define sinAlpha where
    "sinAlpha = fquo U (fmul U (fmul U (cosU1 g) (cosU2 g)) sinLambda) sinSigma"
  from assms have "isNaN (square U (fmul U (cosU2 g) sinLambda)) \<or>
      isNaN (square U (fsub U (fmul U (cosU1 g) (sinU2 g))
                             (fmul U (fmul U (sinU1 g) (cosU2 g)) cosLambda)))"
    unfolding sinLambda_def
    by (auto intro!: isNaN_square isNaN_fmul isNaN_fsub isNaN_Sin)
  then have ss: "isNaN sinSigma"
    unfolding sinSigma_def by (intro isNaN_Sqrt isNaN_fadd)
  then have sa: "isNaN sinAlpha"
    unfolding sinAlpha_def by (simp add: isNaN_fquo)
  have nz: "\<not> feq sinSigma f64_0" using ss by (simp add: feq_NaN)
  have nl: "isNaN (fadd U x (fmul U (fmul U y sinAlpha) z))" for x y z
    using sa by (simp add: isNaN_fadd isNaN_fmul)
  have nc: "\<not> flt (Abs (fsub U (fadd U x (fmul U (fmul U y sinAlpha) z)) w)) c" for x y z w c
    using nl by (simp add: flt_NaN isNaN_Abs isNaN_fsub)
  show ?thesis
    using nz nl nc
    unfolding iteration_def Let_def sinLambda_def cosLambda_def sinSigma_def sinAlpha_def
    by simp
qed



section \<open>The loop\<close>

text \<open>
  \<open>loop\<close> is a total function: its counter i grows by one at every call and the
  recursion stops at MaxIterations (the measure of its termination proof is
  MaxIterations - i).
\<close>

declare loop.simps [simp del]

lemma iteration_exit:
  "iteration U g Lambda = Return e d \<Longrightarrow> e = ZeroSinSigma \<or> e = Convergence"
  by (auto simp add: iteration_def Let_def split: if_splits)

lemma loop_iterations_le:
  "i \<le> MaxIterations \<Longrightarrow> iterations (loop U g i Lambda) \<le> MaxIterations"
proof (induction U g i Lambda rule: loop.induct)
  case (1 U g i Lambda)
  show ?case
  proof (cases "i < MaxIterations")
    case False
    with "1.prems" show ?thesis by (subst loop.simps) simp
  next
    case True
    show ?thesis
    proof (cases "iteration U g Lambda")
      case (Return e d)
      with True show ?thesis by (subst loop.simps) simp
    next
      case (Continue Lambda')
      with True "1.IH" [of Lambda'] show ?thesis by (subst loop.simps) simp
    qed
  qed
qed

lemma loop_all_continue:
  "i \<le> MaxIterations \<Longrightarrow>
   \<forall>k < MaxIterations - i. continues U g (Lambda_at U g Lambda k) \<Longrightarrow>
   loop U g i Lambda =
     \<lparr>result = Distance f64_m1, exit_at = IterationCap, iterations = MaxIterations\<rparr>"
proof (induction U g i Lambda rule: loop.induct)
  case (1 U g i Lambda)
  show ?case
  proof (cases "i < MaxIterations")
    case False
    with "1.prems" show ?thesis by (subst loop.simps) simp
  next
    case True
    then have "0 < MaxIterations - i" by simp
    with "1.prems"(2) have "continues U g (Lambda_at U g Lambda 0)" by blast
    then have "continues U g Lambda" by simp
    then obtain Lambda' where it: "iteration U g Lambda = Continue Lambda'"
      by (auto simp add: continues_def split: step.splits)
    have "\<forall>k < MaxIterations - (i + 1). continues U g (Lambda_at U g Lambda' k)"
    proof (intro allI impI)
      fix k assume "k < MaxIterations - (i + 1)"
      then have "Suc k < MaxIterations - i" by simp
      with "1.prems"(2) have "continues U g (Lambda_at U g Lambda (Suc k))" by blast
      then show "continues U g (Lambda_at U g Lambda' k)"
        by (simp add: next_Lambda_def it)
    qed
    with "1.IH" [OF True it] True have
      "loop U g (i + 1) Lambda' =
        \<lparr>result = Distance f64_m1, exit_at = IterationCap, iterations = MaxIterations\<rparr>"
      by simp
    with True it show ?thesis by (subst loop.simps) simp
  qed
qed

lemma loop_cap_continues:
  "exit_at (loop U g i Lambda) = IterationCap \<Longrightarrow>
   \<forall>k < MaxIterations - i. continues U g (Lambda_at U g Lambda k)"
proof (induction U g i Lambda rule: loop.induct)
  case (1 U g i Lambda)
  show ?case
  proof (cases "i < MaxIterations")
    case False
    then show ?thesis by simp
  next
    case True
    show ?thesis
    proof (cases "iteration U g Lambda")
      case (Return e d)
      with True "1.prems" have "e = IterationCap"
        by (subst (asm) loop.simps) simp
      with iteration_exit [OF Return] show ?thesis by simp
    next
      case (Continue Lambda')
      with True "1.prems" have "exit_at (loop U g (i + 1) Lambda') = IterationCap"
        by (subst (asm) loop.simps) simp
      from "1.IH" [OF True Continue this]
      have ih: "\<forall>k < MaxIterations - (i + 1). continues U g (Lambda_at U g Lambda' k)" .
      show ?thesis
      proof (intro allI impI)
        fix k assume k: "k < MaxIterations - i"
        show "continues U g (Lambda_at U g Lambda k)"
        proof (cases k)
          case 0
          then show ?thesis by (simp add: continues_def Continue)
        next
          case (Suc j)
          with k have "j < MaxIterations - (i + 1)" by simp
          with ih have "continues U g (Lambda_at U g Lambda' j)" by blast
          with Suc show ?thesis by (simp add: next_Lambda_def Continue)
        qed
      qed
    qed
  qed
qed

lemma Lambda_at_NaN:
  "isNaN (cosU1 g) \<or> isNaN (cosU2 g) \<or> isNaN Lambda \<Longrightarrow>
   continues U g (Lambda_at U g Lambda k) \<and> isNaN (Lambda_at U g Lambda (Suc k))"
proof (induction k arbitrary: Lambda)
  case 0
  from iteration_NaN [OF this, of U] show ?case
    by (auto simp add: continues_def next_Lambda_def)
next
  case (Suc k)
  from iteration_NaN [OF Suc.prems, of U]
  have "isNaN (next_Lambda U g Lambda)" by (auto simp add: next_Lambda_def)
  then have "isNaN (cosU1 g) \<or> isNaN (cosU2 g) \<or> isNaN (next_Lambda U g Lambda)" by simp
  from Suc.IH [OF this] show ?case by simp
qed

lemma prepare_NaN:
  assumes "isNaN (Latitude p) \<or> isNaN (Longitude p) \<or> isNaN (Latitude q) \<or> isNaN (Longitude q)"
  shows "isNaN (cosU1 (prepare U p q)) \<or> isNaN (cosU2 (prepare U p q)) \<or> isNaN (L (prepare U p q))"
  using assms unfolding prepare_def Let_def
  by (auto intro!: isNaN_Cos isNaN_Atan isNaN_fmul isNaN_Tan isNaN_radians isNaN_fsub)

lemma not_coincident_NaN:
  assumes "isNaN (Latitude p) \<or> isNaN (Longitude p) \<or> isNaN (Latitude q) \<or> isNaN (Longitude q)"
  shows "\<not> coincident p q"
  using assms by (auto simp add: coincident_def feq_def)

lemma NaN_input_completes_all_iterations:
  assumes "isNaN (Latitude p) \<or> isNaN (Longitude p) \<or> isNaN (Latitude q) \<or> isNaN (Longitude q)"
  shows "completes_all_iterations U p q"
  unfolding completes_all_iterations_def
  using not_coincident_NaN [OF assms] Lambda_at_NaN [OF prepare_NaN [OF assms]]
  by blast

lemma Inverse_run_completes:
  assumes "completes_all_iterations U p q"
  shows "Inverse_run U p q =
    \<lparr>result = Distance f64_m1, exit_at = IterationCap, iterations = MaxIterations\<rparr>"
proof -
  from assms have nc: "\<not> coincident p q"
    and all: "\<forall>k<MaxIterations - 0. continues U (prepare U p q)
          (Lambda_at U (prepare U p q) (L (prepare U p q)) k)"
    by (simp_all add: completes_all_iterations_def)
  from loop_all_continue [OF _ all] nc show ?thesis
    by (simp add: Inverse_run_def Let_def)
qed

lemma Inverse_run_cap:
  assumes "exit_at (Inverse_run U p q) = IterationCap"
  shows "completes_all_iterations U p q"
proof -
  from assms have nc: "\<not> coincident p q"
    by (auto simp add: Inverse_run_def split: if_splits)
  with assms have "exit_at (loop U (prepare U p q) 0 (L (prepare U p q))) = IterationCap"
    by (simp add: Inverse_run_def Let_def)
  from loop_cap_continues [OF this] nc show ?thesis
    by (simp add: completes_all_iterations_def)
qed

lemma NaN_point_has_NaN:
  "isNaN (Latitude NaN_point) \<or> isNaN (Longitude NaN_point) \<or>
   isNaN (Latitude q) \<or> isNaN (Longitude q)"
  by (simp add: NaN_point_def isNaN_NaN)

section \<open>The sentinel of non-convergence\<close>

text \<open>
  C1. If the loop completes all 200 iterations without the convergence check ever
  succeeding, \<^verbatim>\<open>Inverse\<close> returns the sentinel Distance(-1.0). The return statement
  after the loop is the only one that reports a failure, and it is reached in exactly
  that case; \<^verbatim>\<open>Inverse\<close> has no other channel (it is a total function to Distance: no
  operation of it panics).
\<close>

theorem nonconvergence_returns_sentinel:
  "(completes_all_iterations U p q \<longrightarrow> Inverse U p q = Distance f64_m1) \<and>
   (exit_at (Inverse_run U p q) = IterationCap \<longleftrightarrow> completes_all_iterations U p q) \<and>
   MaxIterations = 200"
  using Inverse_run_completes [of U p q] Inverse_run_cap [of U p q]
  by (auto simp add: Inverse_def MaxIterations_def)

text \<open>From a point with a NaN latitude to (0, 0), on every processor and math library.\<close>

theorem nonconvergence_returns_sentinel_witness:
  "\<forall>U. completes_all_iterations U NaN_point origin \<and>
       Inverse U NaN_point origin = Distance f64_m1 \<and>
       exit_at (Inverse_run U NaN_point origin) = IterationCap"
proof
  fix U
  have h: "completes_all_iterations U NaN_point origin"
    by (rule NaN_input_completes_all_iterations [OF NaN_point_has_NaN])
  with nonconvergence_returns_sentinel [of U NaN_point origin]
  show "completes_all_iterations U NaN_point origin \<and>
       Inverse U NaN_point origin = Distance f64_m1 \<and>
       exit_at (Inverse_run U NaN_point origin) = IterationCap"
    by blast
qed

section \<open>Termination\<close>

text \<open>
  C3. \<^verbatim>\<open>Inverse\<close> terminates on every input, out of range, degenerate or not
  convergent: the function of the model is total, and a run of it enters the loop body
  at most 200 times.
\<close>

theorem Inverse_runs_at_most_MaxIterations:
  "iterations (Inverse_run U p q) \<le> MaxIterations \<and> MaxIterations = 200"
proof -
  have "iterations (loop U g 0 Lambda) \<le> MaxIterations" for g Lambda
    by (rule loop_iterations_le) simp
  then show ?thesis
    by (simp add: Inverse_run_def Let_def MaxIterations_def)
qed

section \<open>NaN coordinates\<close>

text \<open>
  C9. If a coordinate of either point is NaN, \<^verbatim>\<open>Inverse\<close> returns the sentinel
  Distance(-1.0): the short-circuit is not taken, no iteration returns, the loop runs
  all 200 iterations and the return after the loop is taken. The value returned is
  neither NaN nor equal to 0.
\<close>

theorem NaN_input_returns_sentinel:
  assumes "isNaN (Latitude p) \<or> isNaN (Longitude p) \<or> isNaN (Latitude q) \<or> isNaN (Longitude q)"
  shows "Inverse U p q = Distance f64_m1 \<and>
         exit_at (Inverse_run U p q) = IterationCap \<and>
         iterations (Inverse_run U p q) = MaxIterations \<and>
         \<not> isNaN f64_m1 \<and> \<not> feq f64_m1 f64_0"
proof -
  have "\<not> isNaN f64_m1" by (simp add: isNaN_def f64_m1_def)
  moreover have "\<not> feq f64_m1 f64_0"
    by (simp add: feq_def isNaN_def isZero_def f64_m1_def f64_0_def)
  ultimately show ?thesis
    using Inverse_run_completes [OF NaN_input_completes_all_iterations [OF assms], of U]
    by (simp add: Inverse_def)
qed

text \<open>Between Boston and a point with a NaN latitude, in both orders.\<close>

theorem NaN_input_returns_sentinel_witness:
  "\<forall>U. isNaN (Latitude NaN_point) \<and> Inverse U NaN_point Boston = Distance f64_m1 \<and>
       Inverse U Boston NaN_point = Distance f64_m1"
proof
  fix U
  have n: "isNaN (Latitude NaN_point)" by (simp add: NaN_point_def isNaN_NaN)
  then have 1: "isNaN (Latitude NaN_point) \<or> isNaN (Longitude NaN_point) \<or>
      isNaN (Latitude Boston) \<or> isNaN (Longitude Boston)" by simp
  from n have 2: "isNaN (Latitude Boston) \<or> isNaN (Longitude Boston) \<or>
      isNaN (Latitude NaN_point) \<or> isNaN (Longitude NaN_point)" by simp
  from n NaN_input_returns_sentinel [OF 1, of U] NaN_input_returns_sentinel [OF 2, of U]
  show "isNaN (Latitude NaN_point) \<and> Inverse U NaN_point Boston = Distance f64_m1 \<and>
       Inverse U Boston NaN_point = Distance f64_m1"
    by simp
qed

section \<open>The distance from a point to itself\<close>

text \<open>
  C2, as the code has it. For a point P whose Latitude and Longitude are not NaN,
  \<^verbatim>\<open>Inverse(P, P)\<close> returns Distance(0): the two \<^verbatim>\<open>==\<close> of the short-circuit hold, and
  the function returns 0.0 there, before any iteration of the loop and with no
  rounding.
\<close>

theorem Inverse_of_a_point_and_itself:
  assumes "\<not> isNaN (Latitude P)" and "\<not> isNaN (Longitude P)"
  shows "Inverse U P P = Distance f64_0 \<and>
         exit_at (Inverse_run U P P) = ShortCircuit \<and>
         iterations (Inverse_run U P P) = 0"
  using assms by (simp add: Inverse_def Inverse_run_def coincident_def feq_refl)

theorem Inverse_of_a_point_and_itself_witness:
  "\<forall>U. \<not> isNaN (Latitude Boston) \<and> \<not> isNaN (Longitude Boston) \<and>
       Inverse U Boston Boston = Distance f64_0 \<and>
       exit_at (Inverse_run U Boston Boston) = ShortCircuit"
proof
  fix U
  have 1: "\<not> isNaN (Latitude Boston)" by (simp add: Boston_def isNaN_def)
  have 2: "\<not> isNaN (Longitude Boston)" by (simp add: Boston_def isNaN_def)
  from 1 2 Inverse_of_a_point_and_itself [OF 1 2, of U]
  show "\<not> isNaN (Latitude Boston) \<and> \<not> isNaN (Longitude Boston) \<and>
       Inverse U Boston Boston = Distance f64_0 \<and>
       exit_at (Inverse_run U Boston Boston) = ShortCircuit"
    by simp
qed

text \<open>
  C2 as it is written, for any point P, fails where a coordinate of P is NaN: a NaN is
  not \<^verbatim>\<open>==\<close> to itself, the short-circuit is not taken, and the two bit-identical
  points are 200 iterations and the sentinel -1.0 apart.
\<close>

theorem Inverse_of_NaN_point_and_itself:
  "\<forall>U. Inverse U NaN_point NaN_point = Distance f64_m1 \<and>
       Inverse U NaN_point NaN_point \<noteq> Distance f64_0 \<and>
       iterations (Inverse_run U NaN_point NaN_point) = 200"
proof
  fix U
  from Inverse_run_completes [OF NaN_input_completes_all_iterations [OF NaN_point_has_NaN], of U]
  show "Inverse U NaN_point NaN_point = Distance f64_m1 \<and>
       Inverse U NaN_point NaN_point \<noteq> Distance f64_0 \<and>
       iterations (Inverse_run U NaN_point NaN_point) = 200"
    by (simp add: Inverse_def f64_m1_def f64_0_def MaxIterations_def)
qed

section \<open>Division by zero\<close>

text \<open>The checked division fails on both zeros, +0 and -0, whatever the dividend.\<close>

lemma checked_quo_zero: "isZero y \<Longrightarrow> checked_quo U x y = None"
  by (simp add: checked_quo_def feq_def isZero_def isNaN_def f64_0_def)

text \<open>
  C7. In every iteration the two divisions are guarded: the division by sinSigma is
  reached only after the test \<^verbatim>\<open>sinSigma == 0\<close> has failed (where it holds the body
  returns Distance(0)), and the division by cosSqAlpha only where
  \<^verbatim>\<open>cosSqAlpha != 0\<close> (otherwise cos2SigmaM is 0). So the body whose two divisions
  fail on a zero divisor never fails, and computes what the body of the source does.
\<close>

theorem divisions_are_guarded:
  "iteration_checked U g Lambda = Some (iteration U g Lambda)"
  unfolding iteration_checked_def iteration_def checked_quo_def Let_def fne_def
  by simp

end
